theory Spec2Isabelle
  imports Main
begin

section \<open>mopm: a shallow embedding of \<open>mopm.go\<close>\<close>

text \<open>
  Go strings are byte strings: they are modelled as \<^typ>\<open>string\<close> (a list of 8-bit
  characters). A Go \<open>error\<close> result is an \<open>error option\<close>, \<open>None\<close> being \<open>nil\<close>.
  A call that may end the process (\<open>os.Exit\<close>, \<open>panic\<close>) returns an \<open>outcome\<close>.
\<close>

subsection \<open>Characters and the string functions of the Go library\<close>

abbreviation LF :: char where "LF \<equiv> CHR 0x0A"
abbreviation CR :: char where "CR \<equiv> CHR 0x0D"
abbreviation dquote :: char where "dquote \<equiv> CHR 0x22"
abbreviation squote :: char where "squote \<equiv> CHR 0x27"
abbreviation ESC :: char where "ESC \<equiv> CHR 0x1B"

definition HasPrefix :: "string \<Rightarrow> string \<Rightarrow> bool" where
  "HasPrefix s p = (take (length p) s = p)"

definition HasSuffix :: "string \<Rightarrow> string \<Rightarrow> bool" where
  "HasSuffix s p = (length p \<le> length s \<and> drop (length s - length p) s = p)"

definition TrimPrefix :: "string \<Rightarrow> string \<Rightarrow> string" where
  "TrimPrefix s p = (if HasPrefix s p then drop (length p) s else s)"

definition TrimSuffix :: "string \<Rightarrow> string \<Rightarrow> string" where
  "TrimSuffix s p = (if HasSuffix s p then take (length s - length p) s else s)"

text \<open>\<open>strings.Split(s, sep)\<close> for a one-byte separator: the pieces between the
  separators, the empty ones included; the empty string gives one empty piece.\<close>

fun Split :: "string \<Rightarrow> char \<Rightarrow> string list" where
  "Split [] sep = [[]]"
| "Split (c # cs) sep =
     (if c = sep then [] # Split cs sep
      else (case Split cs sep of [] \<Rightarrow> [[c]] | l # ls \<Rightarrow> (c # l) # ls))"

text \<open>\<open>strings.Trim(s, " ")\<close>: the spaces of both ends are removed.\<close>

definition Trim_spaces :: "string \<Rightarrow> string" where
  "Trim_spaces s = rev (dropWhile (\<lambda>c. c = CHR '' '') (rev (dropWhile (\<lambda>c. c = CHR '' '') s)))"

text \<open>\<open>regexp.MustCompile(`\r\n|\n\r|\n|\r`).Split(s, -1)\<close>: at each position the
  alternatives are tried from left to right, so a two-byte line end is one separator.\<close>

fun SplitLines :: "string \<Rightarrow> string list" where
  "SplitLines [] = [[]]"
| "SplitLines [c] = (if c = LF \<or> c = CR then [[], []] else [[c]])"
| "SplitLines (c # d # cs) =
     (if (c = CR \<and> d = LF) \<or> (c = LF \<and> d = CR) then [] # SplitLines cs
      else if c = LF \<or> c = CR then [] # SplitLines (d # cs)
      else (case SplitLines (d # cs) of [] \<Rightarrow> [[c]] | l # ls \<Rightarrow> (c # l) # ls))"

subsection \<open>The data model\<close>

record Environment =
  Architecture :: string
  Platform :: string
  Dependencies :: "string list"
  Verification :: string
  Privilege :: bool
  Script :: string

record Package =
  Name :: string
  Url :: string
  Description :: string
  Environments :: "Environment list"

record PackageFile =
  Package :: Package
  Path :: string

subsection \<open>Errors, process termination and the outside world\<close>

datatype error =
    ErrorsNew string   \<comment> \<open>\<open>errors.New(text)\<close>\<close>
  | FmtErrorf string   \<comment> \<open>\<open>fmt.Errorf(...)\<close>, with the formatted text\<close>
  | LibError string    \<comment> \<open>an error returned by a library call, with its text\<close>

fun errorText :: "error \<Rightarrow> string" where
  "errorText (ErrorsNew s) = s"
| "errorText (FmtErrorf s) = s"
| "errorText (LibError s) = s"

datatype 'a outcome =
    Returns 'a
  | Exits int       \<comment> \<open>\<open>os.Exit(code)\<close>\<close>
  | Panics string   \<comment> \<open>a run-time panic, with its message\<close>

datatype stat_error =
    NotExist string   \<comment> \<open>an error for which \<open>os.IsNotExist\<close> holds\<close>
  | StatOther string

fun statText :: "stat_error \<Rightarrow> string" where
  "statText (NotExist s) = s"
| "statText (StatOther s) = s"

text \<open>
  The process's facts and the library calls of the program, over an abstract outside
  world \<open>'w\<close> (the file system, the installed software, the remote repositories).
  A library call that can fail returns the text of its error (\<open>None\<close> or \<open>Inr\<close> when it
  succeeds); one that acts on the world returns the new world as well.
  \<open>strings.ToLower\<close> and \<open>strings.TrimSpace\<close> work on Unicode text; their tables are
  not part of the program, so both are taken as they are, as functions on strings.
\<close>

record 'w sys =
  Getuid :: int
  Getenv :: "string \<Rightarrow> string"
  GOOS :: string
  GOARCH :: string
  user_Current :: "string + string"
  user_Lookup :: "string \<Rightarrow> string + string"
  os_Stat :: "string \<Rightarrow> 'w \<Rightarrow> stat_error option"
  ioutil_ReadFile :: "string \<Rightarrow> 'w \<Rightarrow> string + string"
  ioutil_WriteFile :: "string \<Rightarrow> string \<Rightarrow> 'w \<Rightarrow> string option \<times> 'w"
  yaml_Unmarshal :: "string \<Rightarrow> string + Package"
  strings_ToLower :: "string \<Rightarrow> string"
  strings_TrimSpace :: "string \<Rightarrow> string"
  cmd_Run :: "string list \<Rightarrow> string \<Rightarrow> 'w \<Rightarrow> string option \<times> 'w"
  git_PlainClone :: "string \<Rightarrow> string \<Rightarrow> 'w \<Rightarrow> string option \<times> 'w"
  git_PlainOpen :: "string \<Rightarrow> 'w \<Rightarrow> string option"
  git_Worktree :: "string \<Rightarrow> 'w \<Rightarrow> string option"
  git_Pull :: "string \<Rightarrow> 'w \<Rightarrow> string option \<times> 'w"

text \<open>The calls that act on the world are recorded, in the order they are made.\<close>

datatype call =
    Run "string list" string   \<comment> \<open>\<open>exec.Command(argv).Run()\<close> with this standard input\<close>
  | Write string string        \<comment> \<open>\<open>ioutil.WriteFile(path, content)\<close>\<close>
  | Clone string string        \<comment> \<open>\<open>git.PlainClone(path, url)\<close>\<close>
  | Pull string                \<comment> \<open>\<open>Worktree.Pull\<close> in the repository at this path\<close>

record 'w state =
  world :: 'w
  stderr :: "string list"
  stdout :: "string list"
  trace :: "call list"

definition message :: "string \<Rightarrow> 'w state \<Rightarrow> 'w state" where
  "message s st = st\<lparr>stderr := stderr st @ [s]\<rparr>"

definition println :: "string \<Rightarrow> 'w state \<Rightarrow> 'w state" where
  "println s st = st\<lparr>stdout := stdout st @ [s]\<rparr>"

fun checkIfError :: "error option \<Rightarrow> 'w state \<Rightarrow> unit outcome \<times> 'w state" where
  "checkIfError None st = (Returns (), st)"
| "checkIfError (Some err) st = (Exits 1, message (errorText err) st)"

subsection \<open>Running scripts\<close>

definition machinePrivilege :: "'w sys \<Rightarrow> bool" where
  "machinePrivilege sys = (Getuid sys = 0)"

definition bashStdin :: "string \<Rightarrow> string" where
  "bashStdin script = ''#!/bin/bash -e'' @ [LF] @ script @ [LF]"

definition runCommand :: "'w sys \<Rightarrow> string list \<Rightarrow> string \<Rightarrow> 'w state \<Rightarrow> error option \<times> 'w state" where
  "runCommand sys argv input st =
     (case cmd_Run sys argv input (world st) of
        (r, w') \<Rightarrow> (map_option LibError r, st\<lparr>world := w', trace := trace st @ [Run argv input]\<rparr>))"

definition execBash :: "'w sys \<Rightarrow> string \<Rightarrow> 'w state \<Rightarrow> error option \<times> 'w state" where
  "execBash sys script st = runCommand sys [''bash''] (bashStdin script) st"

definition execBashUnsudo :: "'w sys \<Rightarrow> string \<Rightarrow> 'w state \<Rightarrow> error option \<times> 'w state" where
  "execBashUnsudo sys script st =
     runCommand sys [''sudo'', ''--user='' @ Getenv sys ''SUDO_USER'', ''bash''] (bashStdin script) st"

definition installExec :: "'w sys \<Rightarrow> bool \<Rightarrow> string \<Rightarrow> 'w state \<Rightarrow> error option \<times> 'w state" where
  "installExec sys privilege script st =
     (if privilege = machinePrivilege sys then execBash sys script st
      else let isSudo = (machinePrivilege sys \<and> Getenv sys ''SUDO_USER'' \<noteq> '''')
           in if \<not> privilege \<and> isSudo then execBashUnsudo sys script st
              else (Some (ErrorsNew ''Check privilege to install this package''), st))"

definition verifyExec :: "'w sys \<Rightarrow> Environment \<Rightarrow> 'w state \<Rightarrow> error option \<times> 'w state" where
  "verifyExec sys env st =
     (case execBash sys (Verification env) st of
        (Some _, st') \<Rightarrow> (Some (ErrorsNew ''The package is not installed''), st')
      | (None, st') \<Rightarrow> (None, st'))"

subsection \<open>Sequencing calls that may end the process\<close>

definition returns :: "'a \<Rightarrow> 's \<Rightarrow> 'a outcome \<times> 's" where
  "returns x st = (Returns x, st)"

definition andThen ::
  "('s \<Rightarrow> 'a outcome \<times> 's) \<Rightarrow> ('a \<Rightarrow> 's \<Rightarrow> 'b outcome \<times> 's) \<Rightarrow> 's \<Rightarrow> 'b outcome \<times> 's" where
  "andThen m f st =
     (case m st of
        (Returns x, st') \<Rightarrow> f x st'
      | (Exits c, st') \<Rightarrow> (Exits c, st')
      | (Panics p, st') \<Rightarrow> (Panics p, st'))"

text \<open>\<open>x, err := call(); checkIfError(err)\<close> for a library call that returns a value
  or the text of an error: the error is printed and the process exits with code 1.\<close>

fun checked :: "string + 'a \<Rightarrow> 'w state \<Rightarrow> 'a outcome \<times> 'w state" where
  "checked (Inl e) st = (Exits 1, message (errorText (LibError e)) st)"
| "checked (Inr x) st = (Returns x, st)"

subsection \<open>The home directory and the list of repositories\<close>

definition homeDir :: "'w sys \<Rightarrow> 'w state \<Rightarrow> string outcome \<times> 'w state" where
  "homeDir sys st =
     (if \<not> machinePrivilege sys then checked (user_Current sys) st
      else let sudoUserName = Getenv sys ''SUDO_USER''
           in andThen
                (checkIfError
                   (if sudoUserName = []
                    then Some (ErrorsNew ''Please excute with sudo if you excute mopm by root'')
                    else None))
                (\<lambda>_. checked (user_Lookup sys sudoUserName)) st)"

definition defaultPackageRepoUrl :: string where
  "defaultPackageRepoUrl = ''https://github.com/basd4g/mopm-defs.git''"

fun repoLines :: "string list \<Rightarrow> string list" where
  "repoLines [] = []"
| "repoLines (repo # rest) =
     (if repo \<noteq> [] \<and> \<not> HasPrefix repo ''#'' then Trim_spaces repo # repoLines rest
      else repoLines rest)"

definition writeFile :: "'w sys \<Rightarrow> string \<Rightarrow> string \<Rightarrow> 'w state \<Rightarrow> error option \<times> 'w state" where
  "writeFile sys path content st =
     (case ioutil_WriteFile sys path content (world st) of
        (r, w') \<Rightarrow> (map_option LibError r, st\<lparr>world := w', trace := trace st @ [Write path content]\<rparr>))"

definition packageRepositories :: "'w sys \<Rightarrow> 'w state \<Rightarrow> string list outcome \<times> 'w state" where
  "packageRepositories sys =
     andThen (homeDir sys) (\<lambda>home.
       let path = home @ ''/.mopm-repos'' in
       andThen
         (\<lambda>st. case os_Stat sys path (world st) of
                  Some (NotExist _) \<Rightarrow>
                    (case writeFile sys path defaultPackageRepoUrl
                            (message (''Create the file because it does not exist: '' @ path) st) of
                       (err, st') \<Rightarrow> checkIfError err st')
                | _ \<Rightarrow> (Returns (), st))
         (\<lambda>_. andThen (\<lambda>st. checked (ioutil_ReadFile sys path (world st)) st) (\<lambda>buf.
            let repos = repoLines (Split buf LF) in
            andThen
              (checkIfError
                 (if length repos = 0
                  then Some (ErrorsNew (''package repository url is not found in the file: '' @ path))
                  else None))
              (\<lambda>_. returns repos))))"

definition repoUrl2repoPath :: "'w sys \<Rightarrow> string \<Rightarrow> 'w state \<Rightarrow> string outcome \<times> 'w state" where
  "repoUrl2repoPath sys url =
     (let repo = TrimSuffix (TrimPrefix (TrimPrefix url ''http://'') ''https://'') ''.git''
      in andThen (homeDir sys) (\<lambda>home. returns (home @ ''/.mopm/'' @ repo)))"

subsection \<open>The validator\<close>

definition name_char :: "char \<Rightarrow> bool" where
  "name_char c = (c \<in> set ''0123456789abcdefghijklmnopqrstuvwxyz-'')"

text \<open>The regular expression \<open>^[0-9a-z\-]+$\<close>: one character or more, all of the class.\<close>

definition pkgNameRegex :: "string \<Rightarrow> bool" where
  "pkgNameRegex s = (s \<noteq> [] \<and> list_all name_char s)"

text \<open>The regular expression \<open>^https?://\<close>.\<close>

definition urlRegex :: "string \<Rightarrow> bool" where
  "urlRegex s = (HasPrefix s ''http://'' \<or> HasPrefix s ''https://'')"

fun lintDependencies :: "string list \<Rightarrow> error option" where
  "lintDependencies [] = None"
| "lintDependencies (dpkg # rest) =
     (if \<not> pkgNameRegex dpkg
      then Some (ErrorsNew ''Package dependencies must consist of a-z, 0-9 and -(hyphen) charactors'')
      else lintDependencies rest)"

fun lintEnvironments :: "Environment list \<Rightarrow> error option" where
  "lintEnvironments [] = None"
| "lintEnvironments (env # rest) =
     (if Architecture env \<noteq> ''amd64''
      then Some (ErrorsNew (''Package architecture must be '' @ [squote] @ ''amd64'' @ [squote]))
      else if Platform env \<noteq> ''darwin'' \<and> Platform env \<noteq> ''linux/ubuntu''
      then Some (ErrorsNew (''Package architecture must be '' @ [squote] @ ''darwin'' @ [squote]
                            @ '' or '' @ [squote] @ ''linux/ubuntu'' @ [squote]))
      else (case lintDependencies (Dependencies env) of
              Some err \<Rightarrow> Some err
            | None \<Rightarrow>
                if Verification env = []
                then Some (ErrorsNew ''Package verification must not be empty'')
                else if Script env = []
                then Some (ErrorsNew ''Package script must not be empty'')
                else lintEnvironments rest))"

definition lintPackage :: "Package \<Rightarrow> error option" where
  "lintPackage pkg =
     (if \<not> pkgNameRegex (Name pkg)
      then Some (ErrorsNew ''Package name must consist of a-z, 0-9 and -(hyphen) charactors'')
      else if \<not> urlRegex (Url pkg)
      then Some (ErrorsNew ''Package url must start with http(s):// ... '')
      else if Description pkg = []
      then Some (ErrorsNew ''Package description must not be empty'')
      else if length (Environments pkg) = 0
      then Some (ErrorsNew ''Package must not be empty'')
      else lintEnvironments (Environments pkg))"

subsection \<open>Reading the package files\<close>

definition readPackageFile :: "'w sys \<Rightarrow> string \<Rightarrow> 'w \<Rightarrow> error + PackageFile" where
  "readPackageFile sys path w =
     (case os_Stat sys path w of
        Some err \<Rightarrow>
          Inl (FmtErrorf (''The package do not exist: '' @ path @ [LF] @ ''Wrapped: '' @ statText err))
      | None \<Rightarrow>
          (case ioutil_ReadFile sys path w of
             Inl err \<Rightarrow> Inl (LibError err)
           | Inr buf \<Rightarrow>
               (case yaml_Unmarshal sys buf of
                  Inl err \<Rightarrow>
                    Inl (FmtErrorf (''Failed to parse yaml file: '' @ path @ [LF] @ ''Wrapped: '' @ err))
                | Inr pkg \<Rightarrow>
                    (case lintPackage pkg of
                       Some err \<Rightarrow> Inl err
                     | None \<Rightarrow> Inr \<lparr>Package = pkg, Path = path\<rparr>))))"

definition packageFilePath :: "string \<Rightarrow> string \<Rightarrow> string" where
  "packageFilePath repoPath packageName = repoPath @ ''/definitions/'' @ packageName @ ''.yaml''"

text \<open>The loop of \<open>findAllPackageFile\<close> over the repository URLs, \<open>pkgFiles\<close> being the
  list built so far.\<close>

fun findAllLoop ::
  "'w sys \<Rightarrow> string \<Rightarrow> string list \<Rightarrow> PackageFile list \<Rightarrow> 'w state
     \<Rightarrow> (PackageFile list \<times> error option) outcome \<times> 'w state" where
  "findAllLoop sys packageName [] pkgFiles st = (Returns (pkgFiles, None), st)"
| "findAllLoop sys packageName (url # urls) pkgFiles st =
     (case repoUrl2repoPath sys url st of
        (Returns repoPath, st') \<Rightarrow>
          (case readPackageFile sys (packageFilePath repoPath packageName) (world st') of
             Inr pkgFile \<Rightarrow> findAllLoop sys packageName urls (pkgFiles @ [pkgFile]) st'
           | Inl _ \<Rightarrow> findAllLoop sys packageName urls pkgFiles st')
      | (Exits c, st') \<Rightarrow> (Exits c, st')
      | (Panics p, st') \<Rightarrow> (Panics p, st'))"

definition findAllPackageFile ::
  "'w sys \<Rightarrow> string \<Rightarrow> 'w state \<Rightarrow> (PackageFile list \<times> error option) outcome \<times> 'w state" where
  "findAllPackageFile sys packageName =
     andThen (packageRepositories sys) (\<lambda>repos. findAllLoop sys packageName repos [])"

subsection \<open>The resolver\<close>

definition envIdOf :: "Environment \<Rightarrow> string" where
  "envIdOf env = Architecture env @ ''@'' @ Platform env"

fun findInEnvironments :: "Environment list \<Rightarrow> string \<Rightarrow> Environment option" where
  "findInEnvironments [] envId = None"
| "findInEnvironments (env # rest) envId =
     (if envIdOf env = envId then Some env else findInEnvironments rest envId)"

fun findInPackageFiles :: "PackageFile list \<Rightarrow> string \<Rightarrow> error + Environment" where
  "findInPackageFiles [] envId = Inl (ErrorsNew ''Matched environment does not exist'')"
| "findInPackageFiles (pkgFile # rest) envId =
     (case findInEnvironments (Environments (Package pkgFile)) envId of
        Some env \<Rightarrow> Inr env
      | None \<Rightarrow> findInPackageFiles rest envId)"

definition findPackageEnvironment ::
  "'w sys \<Rightarrow> string \<Rightarrow> string \<Rightarrow> 'w state \<Rightarrow> (error + Environment) outcome \<times> 'w state" where
  "findPackageEnvironment sys packageName envId =
     andThen (findAllPackageFile sys packageName) (\<lambda>(pkgFiles, err).
       case err of
         Some e \<Rightarrow> returns (Inl e)
       | None \<Rightarrow> returns (findInPackageFiles pkgFiles envId))"

subsection \<open>The machine's environment identifier\<close>

definition namePrefix :: string where
  "namePrefix = ''NAME='' @ [dquote]"

text \<open>The loop of \<open>machinePlatform\<close> over the lines of \<open>/etc/os-release\<close>. The slice
  \<open>line[6 : len(line)-1]\<close> panics when its upper bound is below 6.\<close>

fun osReleaseLines :: "'w sys \<Rightarrow> string list \<Rightarrow> string outcome" where
  "osReleaseLines sys [] = Returns ''linux''"
| "osReleaseLines sys (line # rest) =
     (if HasPrefix line namePrefix \<and> HasSuffix line [dquote]
      then (if length line - 1 < 6
            then Panics ''runtime error: slice bounds out of range [6:5]''
            else let distributionName =
                       strings_TrimSpace sys
                         (strings_ToLower sys (drop 6 (take (length line - 1) line)))
                 in Returns (''linux/'' @ distributionName))
      else osReleaseLines sys rest)"

definition machinePlatform :: "'w sys \<Rightarrow> 'w \<Rightarrow> string outcome" where
  "machinePlatform sys w =
     (if GOOS sys \<noteq> ''linux'' then Returns (GOOS sys)
      else (case ioutil_ReadFile sys ''/etc/os-release'' w of
              Inl err \<Rightarrow> Panics ''failed to read /etc/os-release inspite that your machine is linux''
            | Inr buf \<Rightarrow> osReleaseLines sys (SplitLines buf)))"

definition machineEnvId :: "'w sys \<Rightarrow> 'w \<Rightarrow> string outcome" where
  "machineEnvId sys w =
     (case machinePlatform sys w of
        Returns platform \<Rightarrow> Returns (GOARCH sys @ ''@'' @ platform)
      | Exits c \<Rightarrow> Exits c
      | Panics p \<Rightarrow> Panics p)"

subsection \<open>Printing a package\<close>

text \<open>\<open>Environment.String\<close> calls \<open>machineEnvId\<close>; when that panics inside a \<open>String\<close>
  method, the \<open>fmt\<close> package prints the panic's message in place of the value.\<close>

definition Environment_String :: "'w sys \<Rightarrow> 'w \<Rightarrow> Environment \<Rightarrow> string" where
  "Environment_String sys w env =
     (let priv = (if Privilege env then ''(need privilege)'' else []);
          envId = Architecture env @ ''@'' @ Platform env
      in case machineEnvId sys w of
           Returns machineId \<Rightarrow>
             if machineId = envId then [ESC] @ ''[32m'' @ envId @ priv @ [ESC] @ ''[0m''
             else envId @ priv
         | Exits c \<Rightarrow> envId @ priv
         | Panics p \<Rightarrow> ''%!s(PANIC=String method: '' @ p @ '')'')"

fun environmentsString :: "'w sys \<Rightarrow> 'w \<Rightarrow> nat \<Rightarrow> Environment list \<Rightarrow> string" where
  "environmentsString sys w i [] = []"
| "environmentsString sys w i (env # rest) =
     (if i \<noteq> 0 then '', '' else []) @ Environment_String sys w env
       @ environmentsString sys w (Suc i) rest"

definition Package_String :: "'w sys \<Rightarrow> 'w \<Rightarrow> Package \<Rightarrow> string" where
  "Package_String sys w pkg =
     ''name:         '' @ Name pkg @ [LF]
     @ ''url:          '' @ Url pkg @ [LF]
     @ ''description:  '' @ Description pkg @ [LF]
     @ ''environments: '' @ environmentsString sys w 0 (Environments pkg)"

definition PackageFile_String :: "'w sys \<Rightarrow> 'w \<Rightarrow> PackageFile \<Rightarrow> string" where
  "PackageFile_String sys w pkgFile =
     ''path:         '' @ Path pkgFile @ [LF] @ Package_String sys w (Package pkgFile)"

subsection \<open>The commands\<close>

fun searchLoop :: "'w sys \<Rightarrow> PackageFile list \<Rightarrow> 'w state \<Rightarrow> 'w state" where
  "searchLoop sys [] st = st"
| "searchLoop sys (pkgFile # rest) st =
     searchLoop sys rest (println [] (println (PackageFile_String sys (world st) pkgFile) st))"

definition search :: "'w sys \<Rightarrow> string \<Rightarrow> 'w state \<Rightarrow> error option outcome \<times> 'w state" where
  "search sys packageName =
     andThen (findAllPackageFile sys packageName) (\<lambda>(pkgFiles, err).
       andThen (checkIfError err) (\<lambda>_ st. (Returns None, searchLoop sys pkgFiles st)))"

definition lint :: "'w sys \<Rightarrow> string \<Rightarrow> 'w state \<Rightarrow> error option \<times> 'w state" where
  "lint sys packagePath st =
     (case readPackageFile sys packagePath (world st) of
        Inl err \<Rightarrow> (Some err, message (errorText err) st)
      | Inr _ \<Rightarrow> (None, message ''lint passed'' st))"

text \<open>The arguments of \<open>findPackageEnvironment(packageName, machineEnvId())\<close> are
  evaluated before the call, so \<open>verify\<close> and \<open>install\<close> derive the machine's
  identifier first.\<close>

definition verify :: "'w sys \<Rightarrow> string \<Rightarrow> 'w state \<Rightarrow> error option outcome \<times> 'w state" where
  "verify sys packageName =
     andThen (\<lambda>st. (machineEnvId sys (world st), st)) (\<lambda>envId.
       andThen (findPackageEnvironment sys packageName envId) (\<lambda>found st.
         case found of
           Inl err \<Rightarrow> (Returns (Some err), message (errorText err) st)
         | Inr env \<Rightarrow> (case verifyExec sys env st of (r, st') \<Rightarrow> (Returns r, st'))))"

text \<open>\<open>install\<close> once the environment is resolved (the source's lines after the call of
  \<open>findPackageEnvironment\<close>).\<close>

definition installEnvironment :: "'w sys \<Rightarrow> Environment \<Rightarrow> 'w state \<Rightarrow> error option \<times> 'w state" where
  "installEnvironment sys env st =
     (case verifyExec sys env st of
        (None, st1) \<Rightarrow> (None, message ''The package is already installed'' st1)
      | (Some _, st1) \<Rightarrow>
          (case installExec sys (Privilege env) (Script env) st1 of
             (Some err, st2) \<Rightarrow> (Some err, message (errorText err) st2)
           | (None, st2) \<Rightarrow>
               (case verifyExec sys env st2 of
                  (Some _, st3) \<Rightarrow>
                    (let err = ErrorsNew ''Finished installing script but failed to verify''
                     in (Some err, message (errorText err) st3))
                | (None, st3) \<Rightarrow> (None, message ''Installed successfully.'' st3))))"

definition install :: "'w sys \<Rightarrow> string \<Rightarrow> 'w state \<Rightarrow> error option outcome \<times> 'w state" where
  "install sys packageName =
     andThen (\<lambda>st. (machineEnvId sys (world st), st)) (\<lambda>envId.
       andThen (findPackageEnvironment sys packageName envId) (\<lambda>found st.
         case found of
           Inl err \<Rightarrow> (Returns (Some err), message (errorText err) st)
         | Inr env \<Rightarrow> (case installEnvironment sys env st of (r, st') \<Rightarrow> (Returns r, st'))))"

definition gitClone :: "'w sys \<Rightarrow> string \<Rightarrow> string \<Rightarrow> 'w state \<Rightarrow> unit outcome \<times> 'w state" where
  "gitClone sys path url st =
     (case git_PlainClone sys path url (world st) of
        (r, w') \<Rightarrow>
          checkIfError (map_option LibError r) (st\<lparr>world := w', trace := trace st @ [Clone path url]\<rparr>))"

definition gitPull :: "'w sys \<Rightarrow> string \<Rightarrow> 'w state \<Rightarrow> unit outcome \<times> 'w state" where
  "gitPull sys path =
     andThen (\<lambda>st. checkIfError (map_option LibError (git_PlainOpen sys path (world st))) st) (\<lambda>_.
       andThen (\<lambda>st. checkIfError (map_option LibError (git_Worktree sys path (world st))) st) (\<lambda>_ st.
         case git_Pull sys path (world st) of
           (r, w') \<Rightarrow>
             checkIfError (map_option LibError r) (st\<lparr>world := w', trace := trace st @ [Pull path]\<rparr>)))"

text \<open>The loop of \<open>update\<close> over the URLs. Each round reads the list of repositories
  again and takes the path of its first element; indexing an empty list panics.\<close>

fun updateLoop :: "'w sys \<Rightarrow> string list \<Rightarrow> 'w state \<Rightarrow> error option outcome \<times> 'w state" where
  "updateLoop sys [] st = (Returns None, st)"
| "updateLoop sys (url # urls) st =
     (case andThen (packageRepositories sys) (\<lambda>repos.
             case repos of
               [] \<Rightarrow> (\<lambda>st. (Panics ''runtime error: index out of range [0] with length 0'', st))
             | first # _ \<Rightarrow>
                 andThen (repoUrl2repoPath sys first) (\<lambda>path st.
                   case os_Stat sys path (world st) of
                     Some _ \<Rightarrow>
                       gitClone sys path url
                         (message (''Directory does not exist: '' @ path @ [LF] @ ''Clone'') st)
                   | None \<Rightarrow> gitPull sys path st)) st of
        (Returns _, st') \<Rightarrow> updateLoop sys urls st'
      | (Exits c, st') \<Rightarrow> (Exits c, st')
      | (Panics p, st') \<Rightarrow> (Panics p, st'))"

definition update :: "'w sys \<Rightarrow> 'w state \<Rightarrow> error option outcome \<times> 'w state" where
  "update sys = andThen (packageRepositories sys) (\<lambda>repos. updateLoop sys repos)"

section \<open>The specification's own notions\<close>

subsection \<open>The decision table of the privilege policy\<close>

datatype decision = RunDirect | RunAs string | Deny

text \<open>The table of the specification, row by row: required privilege, current
  privilege, the identity to fall back to (if any).\<close>

fun policyTable :: "bool \<Rightarrow> bool \<Rightarrow> string option \<Rightarrow> decision" where
  "policyTable True True _ = RunDirect"
| "policyTable True False _ = Deny"
| "policyTable False False _ = RunDirect"
| "policyTable False True (Some identity) = RunAs identity"
| "policyTable False True None = Deny"

text \<open>The identity to fall back to is the value of \<open>SUDO_USER\<close>, when it is not empty.\<close>

definition deescalationIdentity :: "'w sys \<Rightarrow> string option" where
  "deescalationIdentity sys =
     (if Getenv sys ''SUDO_USER'' = [] then None else Some (Getenv sys ''SUDO_USER''))"

text \<open>What the executor is called with under a decision: plain \<open>bash\<close>, or \<open>bash\<close> under
  \<open>sudo\<close> as the given user; nothing on a denial.\<close>

fun decisionArgv :: "decision \<Rightarrow> string list option" where
  "decisionArgv RunDirect = Some [''bash'']"
| "decisionArgv (RunAs identity) = Some [''sudo'', ''--user='' @ identity, ''bash'']"
| "decisionArgv Deny = None"

definition newCalls :: "'w state \<Rightarrow> 'w state \<Rightarrow> call list" where
  "newCalls st st' = drop (length (trace st)) (trace st')"

text \<open>The specification's reading of \<open>verify\<close>: the verification command is run the way
  the policy decides for the environment's privilege flag.\<close>

definition verifyFollowsPolicy :: "'w sys \<Rightarrow> Environment \<Rightarrow> 'w state \<Rightarrow> bool" where
  "verifyFollowsPolicy sys env st =
     (newCalls st (snd (verifyExec sys env st)) =
        (case decisionArgv (policyTable (Privilege env) (machinePrivilege sys) (deescalationIdentity sys)) of
           Some argv \<Rightarrow> [Run argv (bashStdin (Verification env))]
         | None \<Rightarrow> []))"

text \<open>The specification's reading of \<open>install\<close> after a script that was allowed to run:
  verification is run again whatever the script returned, and the result is success
  or the failed-verification error.\<close>

definition failedVerification :: error where
  "failedVerification = ErrorsNew ''Finished installing script but failed to verify''"

definition privilegeDenied :: error where
  "privilegeDenied = ErrorsNew ''Check privilege to install this package''"

definition reverifiesAfterScript :: "'w sys \<Rightarrow> Environment \<Rightarrow> 'w state \<Rightarrow> bool" where
  "reverifiesAfterScript sys env st =
     (case installEnvironment sys env st of
        (r, st') \<Rightarrow>
          (r = None \<or> r = Some failedVerification)
          \<and> length (newCalls st st') = 3
          \<and> last (newCalls st st') = Run [''bash''] (bashStdin (Verification env)))"

subsection \<open>The rules of the validator, in the order of the specification\<close>

datatype rule =
    NameCharset
  | UrlPrefix
  | DescriptionNonEmpty
  | EnvironmentsNonEmpty
  | ArchitectureAllowed nat
  | PlatformAllowed nat
  | DependencyCharset nat
  | VerificationNonEmpty nat
  | ScriptNonEmpty nat

fun violated :: "Package \<Rightarrow> rule \<Rightarrow> bool" where
  "violated pkg NameCharset = (\<not> (Name pkg \<noteq> [] \<and> list_all name_char (Name pkg)))"
| "violated pkg UrlPrefix = (\<not> (HasPrefix (Url pkg) ''http://'' \<or> HasPrefix (Url pkg) ''https://''))"
| "violated pkg DescriptionNonEmpty = (Description pkg = [])"
| "violated pkg EnvironmentsNonEmpty = (Environments pkg = [])"
| "violated pkg (ArchitectureAllowed i) = (Architecture (Environments pkg ! i) \<notin> set [''amd64''])"
| "violated pkg (PlatformAllowed i) =
     (Platform (Environments pkg ! i) \<notin> set [''darwin'', ''linux/ubuntu''])"
| "violated pkg (DependencyCharset i) =
     (\<not> list_all (\<lambda>d. d \<noteq> [] \<and> list_all name_char d) (Dependencies (Environments pkg ! i)))"
| "violated pkg (VerificationNonEmpty i) = (Verification (Environments pkg ! i) = [])"
| "violated pkg (ScriptNonEmpty i) = (Script (Environments pkg ! i) = [])"

definition environmentRules :: "nat \<Rightarrow> rule list" where
  "environmentRules i =
     [ArchitectureAllowed i, PlatformAllowed i, DependencyCharset i,
      VerificationNonEmpty i, ScriptNonEmpty i]"

definition ruleOrder :: "Package \<Rightarrow> rule list" where
  "ruleOrder pkg =
     [NameCharset, UrlPrefix, DescriptionNonEmpty, EnvironmentsNonEmpty]
     @ concat (map environmentRules [0 ..< length (Environments pkg)])"

definition firstViolation :: "Package \<Rightarrow> rule option" where
  "firstViolation pkg = find (violated pkg) (ruleOrder pkg)"

text \<open>The error the program reports for each rule.\<close>

fun ruleError :: "rule \<Rightarrow> error" where
  "ruleError NameCharset =
     ErrorsNew ''Package name must consist of a-z, 0-9 and -(hyphen) charactors''"
| "ruleError UrlPrefix = ErrorsNew ''Package url must start with http(s):// ... ''"
| "ruleError DescriptionNonEmpty = ErrorsNew ''Package description must not be empty''"
| "ruleError EnvironmentsNonEmpty = ErrorsNew ''Package must not be empty''"
| "ruleError (ArchitectureAllowed i) =
     ErrorsNew (''Package architecture must be '' @ [squote] @ ''amd64'' @ [squote])"
| "ruleError (PlatformAllowed i) =
     ErrorsNew (''Package architecture must be '' @ [squote] @ ''darwin'' @ [squote]
                @ '' or '' @ [squote] @ ''linux/ubuntu'' @ [squote])"
| "ruleError (DependencyCharset i) =
     ErrorsNew ''Package dependencies must consist of a-z, 0-9 and -(hyphen) charactors''"
| "ruleError (VerificationNonEmpty i) = ErrorsNew ''Package verification must not be empty''"
| "ruleError (ScriptNonEmpty i) = ErrorsNew ''Package script must not be empty''"

subsection \<open>First match, and validity\<close>

definition allEnvironments :: "PackageFile list \<Rightarrow> Environment list" where
  "allEnvironments pkgFiles = concat (map (\<lambda>pkgFile. Environments (Package pkgFile)) pkgFiles)"

definition validEnvironment :: "Environment \<Rightarrow> bool" where
  "validEnvironment env =
     (Architecture env = ''amd64''
      \<and> (Platform env = ''darwin'' \<or> Platform env = ''linux/ubuntu'')
      \<and> Verification env \<noteq> [] \<and> Script env \<noteq> [])"

text \<open>The package files that the repositories \<open>urls\<close> hold for a package, a repository
  whose file cannot be read, parsed or validated giving none.\<close>

definition readableFiles :: "'w sys \<Rightarrow> string \<Rightarrow> string \<Rightarrow> string list \<Rightarrow> 'w \<Rightarrow> PackageFile list" where
  "readableFiles sys home packageName urls w =
     concat (map (\<lambda>url.
       case readPackageFile sys
              (packageFilePath
                 (home @ ''/.mopm/''
                  @ TrimSuffix (TrimPrefix (TrimPrefix url ''http://'') ''https://'') ''.git'')
                 packageName) w of
         Inr pkgFile \<Rightarrow> [pkgFile]
       | Inl _ \<Rightarrow> []) urls)"

section \<open>A small machine to run the program on\<close>

text \<open>A concrete outside world: the files with their contents, the directories, and
  whether the tool of the example package is installed.\<close>

record demo_world =
  files :: "(string \<times> string) list"
  dirs :: "string list"
  installed :: bool

definition toolEnvironment :: Environment where
  "toolEnvironment =
     \<lparr>Architecture = ''amd64'', Platform = ''linux/ubuntu'', Dependencies = [''curl''],
      Verification = ''which tool'', Privilege = False, Script = ''make install-tool''\<rparr>"

definition toolPackage :: Package where
  "toolPackage =
     \<lparr>Name = ''tool'', Url = ''https://example.com/tool'', Description = ''a tool'',
      Environments = [toolEnvironment]\<rparr>"

definition demoStat :: "string \<Rightarrow> demo_world \<Rightarrow> stat_error option" where
  "demoStat path w =
     (if map_of (files w) path \<noteq> None \<or> path \<in> set (dirs w) then None
      else Some (NotExist ''no such file or directory''))"

definition demoRead :: "string \<Rightarrow> demo_world \<Rightarrow> string + string" where
  "demoRead path w =
     (case map_of (files w) path of
        Some content \<Rightarrow> Inr content
      | None \<Rightarrow> Inl ''no such file or directory'')"

definition demoYaml :: "string \<Rightarrow> string + Package" where
  "demoYaml buf =
     (if buf = ''tool'' then Inr toolPackage
      else if buf = ''upper'' then Inr (toolPackage\<lparr>Name := ''Tool''\<rparr>)
      else if buf = ''later''
      then Inr (toolPackage\<lparr>Environments := [toolEnvironment\<lparr>Script := ''make later''\<rparr>]\<rparr>)
      else Inl ''cannot unmarshal'')"

text \<open>The files of the example are ASCII text. On ASCII text \<open>strings.ToLower\<close> maps the
  letters \<open>A\<close> to \<open>Z\<close> to \<open>a\<close> to \<open>z\<close>, and \<open>strings.TrimSpace\<close> removes tab, line
  feed, vertical tab, form feed, carriage return and space from both ends.\<close>

definition demoLowerChar :: "char \<Rightarrow> char" where
  "demoLowerChar c =
     (case map_of (zip ''ABCDEFGHIJKLMNOPQRSTUVWXYZ'' ''abcdefghijklmnopqrstuvwxyz'') c of
        Some l \<Rightarrow> l
      | None \<Rightarrow> c)"

definition demoToLower :: "string \<Rightarrow> string" where
  "demoToLower s = map demoLowerChar s"

definition demoIsSpace :: "char \<Rightarrow> bool" where
  "demoIsSpace c = (c \<in> set [CHR 0x09, LF, CHR 0x0B, CHR 0x0C, CR, CHR '' ''])"

definition demoTrimSpace :: "string \<Rightarrow> string" where
  "demoTrimSpace s = rev (dropWhile demoIsSpace (rev (dropWhile demoIsSpace s)))"

text \<open>The shell of the example: \<open>which tool\<close> succeeds once the tool is installed,
  \<open>make install-tool\<close> installs it, every other script fails.\<close>

definition demoRun :: "string list \<Rightarrow> string \<Rightarrow> demo_world \<Rightarrow> string option \<times> demo_world" where
  "demoRun argv input w =
     (if input = bashStdin ''which tool''
      then (if installed w then None else Some ''exit status 1'', w)
      else if input = bashStdin ''make install-tool'' then (None, w\<lparr>installed := True\<rparr>)
      else (Some ''exit status 127'', w))"

definition demoSys :: "demo_world sys" where
  "demoSys =
     \<lparr>Getuid = 1000,
      Getenv = (\<lambda>_. []),
      GOOS = ''linux'',
      GOARCH = ''amd64'',
      user_Current = Inr ''/home/u'',
      user_Lookup = (\<lambda>name. if name = ''alice'' then Inr ''/home/alice'' else Inl ''unknown user''),
      os_Stat = demoStat,
      ioutil_ReadFile = demoRead,
      ioutil_WriteFile = (\<lambda>path content w. (None, w\<lparr>files := (path, content) # files w\<rparr>)),
      yaml_Unmarshal = demoYaml,
      strings_ToLower = demoToLower,
      strings_TrimSpace = demoTrimSpace,
      cmd_Run = demoRun,
      git_PlainClone = (\<lambda>path url w. (None, w\<lparr>dirs := path # dirs w\<rparr>)),
      git_PlainOpen = (\<lambda>path w. None),
      git_Worktree = (\<lambda>path w. None),
      git_Pull = (\<lambda>path w. (None, w))\<rparr>"

text \<open>The same machine run by root, under \<open>sudo\<close> from the user \<open>alice\<close> or not.\<close>

definition sudoSys :: "demo_world sys" where
  "sudoSys = demoSys\<lparr>Getuid := 0, Getenv := (\<lambda>k. if k = ''SUDO_USER'' then ''alice'' else [])\<rparr>"

definition rootSys :: "demo_world sys" where
  "rootSys = demoSys\<lparr>Getuid := 0\<rparr>"

text \<open>Three repositories are configured; the first holds a definition of \<open>tool\<close>
  whose name is not valid, the second and the third hold valid ones.\<close>

definition demoWorld :: demo_world where
  "demoWorld =
     \<lparr>files =
        [(''/home/u/.mopm-repos'',
          ''https://a.org/x.git'' @ [LF] @ ''http://b.org/y'' @ [LF] @ ''https://c.org/z.git''),
         (''/etc/os-release'', ''ID=ubuntu'' @ [LF] @ ''NAME='' @ [dquote] @ ''Ubuntu'' @ [dquote]),
         (''/home/u/.mopm/a.org/x/definitions/tool.yaml'', ''upper''),
         (''/home/u/.mopm/b.org/y/definitions/tool.yaml'', ''tool''),
         (''/home/u/.mopm/c.org/z/definitions/tool.yaml'', ''later'')],
      dirs = [],
      installed = False\<rparr>"

definition demoState :: "demo_world state" where
  "demoState = \<lparr>world = demoWorld, stderr = [], stdout = [], trace = []\<rparr>"

text \<open>A machine whose \<open>/etc/os-release\<close> names no distribution: \<open>NAME=""\<close>.\<close>

definition namelessWorld :: demo_world where
  "namelessWorld = demoWorld\<lparr>files := [(''/etc/os-release'', ''NAME='' @ [dquote, dquote])]\<rparr>"

section \<open>Shared lemmas\<close>

lemmas demo_defs = demoSys_def demoWorld_def demoState_def demoStat_def demoRead_def demoYaml_def
  demoRun_def toolPackage_def toolEnvironment_def sudoSys_def rootSys_def namelessWorld_def

lemma installExec_decision:
  "installExec sys privilege script st =
     (case decisionArgv (policyTable privilege (machinePrivilege sys) (deescalationIdentity sys)) of
        Some argv \<Rightarrow> runCommand sys argv (bashStdin script) st
      | None \<Rightarrow> (Some privilegeDenied, st))"
  by (cases privilege; cases "machinePrivilege sys"; cases "Getenv sys ''SUDO_USER'' = []")
     (simp_all add: installExec_def execBash_def execBashUnsudo_def deescalationIdentity_def
        privilegeDenied_def)

lemma verifyExec_run:
  "verifyExec sys env st =
     (case cmd_Run sys [''bash''] (bashStdin (Verification env)) (world st) of
        (r, w') \<Rightarrow>
          (if r = None then None else Some (ErrorsNew ''The package is not installed''),
           st\<lparr>world := w', trace := trace st @ [Run [''bash''] (bashStdin (Verification env))]\<rparr>))"
  by (auto simp: verifyExec_def execBash_def runCommand_def split: prod.splits option.splits)

lemma install_resolved:
  assumes "machineEnvId sys (world st0) = Returns envId"
      and "findPackageEnvironment sys packageName envId st0 = (Returns (Inr env), st)"
  shows "install sys packageName st0 =
           (Returns (fst (installEnvironment sys env st)), snd (installEnvironment sys env st))"
  using assms by (simp add: install_def andThen_def split: prod.splits)

section \<open>The privilege policy\<close>

text \<open>
  Claim C1. \<open>installExec\<close> decides as the table of the specification does, on the
  required privilege, the current privilege and the identity in \<open>SUDO_USER\<close>: on
  \<open>RunDirect\<close> the script is given to plain \<open>bash\<close>, on \<open>RunAs identity\<close> to \<open>bash\<close> under
  \<open>sudo --user=identity\<close>, and on \<open>Deny\<close> nothing is run and the privilege error is
  returned. The identity is looked at in the row (false, true) of the table only.
\<close>

theorem privilege_table:
  "installExec sys privilege script st =
     (case policyTable privilege (machinePrivilege sys) (deescalationIdentity sys) of
        RunDirect \<Rightarrow> runCommand sys [''bash''] (bashStdin script) st
      | RunAs identity \<Rightarrow>
          runCommand sys [''sudo'', ''--user='' @ identity, ''bash''] (bashStdin script) st
      | Deny \<Rightarrow> (Some (ErrorsNew ''Check privilege to install this package''), st))"
  by (cases privilege; cases "machinePrivilege sys"; cases "Getenv sys ''SUDO_USER'' = []")
     (simp_all add: installExec_def execBash_def execBashUnsudo_def deescalationIdentity_def)

section \<open>Verification\<close>

text \<open>
  Claim C2, as the specification states it, fails: under \<open>sudo\<close> from \<open>alice\<close> the policy
  decides \<open>RunAs alice\<close> for an environment that needs no privilege, and \<open>verifyExec\<close>
  still gives the verification command to plain \<open>bash\<close>.
\<close>

theorem verify_policy_counterexample:
  "policyTable (Privilege toolEnvironment) (machinePrivilege sudoSys) (deescalationIdentity sudoSys)
     = RunAs ''alice''
   \<and> newCalls demoState (snd (verifyExec sudoSys toolEnvironment demoState))
       = [Run [''bash''] (bashStdin ''which tool'')]
   \<and> \<not> verifyFollowsPolicy sudoSys toolEnvironment demoState"
  by (simp add: verifyFollowsPolicy_def verifyExec_run newCalls_def machinePrivilege_def
        deescalationIdentity_def demo_defs)

text \<open>
  Claim C2, amended. \<open>verifyExec\<close> consults no policy: on every machine and for every
  environment it runs the verification command with plain \<open>bash\<close>, as the process's
  own user, whatever the environment's privilege flag; it returns \<open>nil\<close> exactly when
  the executor reports success, and the not-installed error otherwise.
\<close>

theorem verify_runs_bash_directly:
  "verifyExec sys env st =
     (case cmd_Run sys [''bash''] (bashStdin (Verification env)) (world st) of
        (r, w') \<Rightarrow>
          (if r = None then None else Some (ErrorsNew ''The package is not installed''),
           st\<lparr>world := w', trace := trace st @ [Run [''bash''] (bashStdin (Verification env))]\<rparr>))
   \<and> verifyExec sys (env\<lparr>Privilege := p\<rparr>) st = verifyExec sys env st"
  by (auto simp: verifyExec_def execBash_def runCommand_def split: prod.splits option.splits)

section \<open>Installation\<close>

text \<open>
  Claim C3, as the specification states it, fails: when the script itself fails,
  \<open>install\<close> returns the script's error at once; verification is not run a second
  time, and the result is neither success nor the failed-verification error.
\<close>

theorem install_reverify_counterexample:
  "fst (verifyExec demoSys (toolEnvironment\<lparr>Script := ''no-such-command''\<rparr>) demoState) \<noteq> None
   \<and> policyTable (Privilege (toolEnvironment\<lparr>Script := ''no-such-command''\<rparr>)) (machinePrivilege demoSys)
        (deescalationIdentity demoSys) \<noteq> Deny
   \<and> newCalls demoState
        (snd (installEnvironment demoSys (toolEnvironment\<lparr>Script := ''no-such-command''\<rparr>) demoState))
       = [Run [''bash''] (bashStdin ''which tool''), Run [''bash''] (bashStdin ''no-such-command'')]
   \<and> fst (installEnvironment demoSys (toolEnvironment\<lparr>Script := ''no-such-command''\<rparr>) demoState)
       = Some (LibError ''exit status 127'')
   \<and> \<not> reverifiesAfterScript demoSys (toolEnvironment\<lparr>Script := ''no-such-command''\<rparr>) demoState"
  by (simp add: reverifiesAfterScript_def installEnvironment_def verifyExec_run installExec_decision
        runCommand_def newCalls_def machinePrivilege_def deescalationIdentity_def message_def
        failedVerification_def bashStdin_def demo_defs)

text \<open>
  Claim C3, amended. Let the first verification fail and the policy not deny, \<open>argv\<close>
  being the command line it decides. Then \<open>install\<close> runs the script with \<open>argv\<close>. If
  the script fails, its error is returned and nothing more is run. If the script
  succeeds, verification is run a second time: the result is success when it
  succeeds, and otherwise the failed-verification error, which differs from the
  privilege error and from every error of the executor.
\<close>

theorem install_after_script:
  assumes first: "cmd_Run sys [''bash''] (bashStdin (Verification env)) (world st) = (Some e1, w1)"
      and allowed: "decisionArgv (policyTable (Privilege env) (machinePrivilege sys)
                                    (deescalationIdentity sys)) = Some argv"
      and script: "cmd_Run sys argv (bashStdin (Script env)) w1 = (r2, w2)"
      and second: "cmd_Run sys [''bash''] (bashStdin (Verification env)) w2 = (r3, w3)"
  shows "installEnvironment sys env st =
           (case r2 of
              Some e2 \<Rightarrow>
                (Some (LibError e2),
                 st\<lparr>world := w2,
                    trace := trace st @ [Run [''bash''] (bashStdin (Verification env)),
                                         Run argv (bashStdin (Script env))],
                    stderr := stderr st @ [e2]\<rparr>)
            | None \<Rightarrow>
                (if r3 = None then None else Some failedVerification,
                 st\<lparr>world := w3,
                    trace := trace st @ [Run [''bash''] (bashStdin (Verification env)),
                                         Run argv (bashStdin (Script env)),
                                         Run [''bash''] (bashStdin (Verification env))],
                    stderr := stderr st @
                      [if r3 = None then ''Installed successfully.''
                       else ''Finished installing script but failed to verify'']\<rparr>))
         \<and> failedVerification \<noteq> privilegeDenied
         \<and> (\<forall>e. failedVerification \<noteq> LibError e)"
  using assms
  by (cases r2; cases r3)
     (simp_all add: installEnvironment_def verifyExec_run installExec_decision runCommand_def
        message_def failedVerification_def privilegeDenied_def)

theorem install_after_script_witness:
  "installEnvironment demoSys toolEnvironment demoState
     = (None, \<lparr>world = demoWorld\<lparr>installed := True\<rparr>,
               stderr = [''Installed successfully.''], stdout = [],
               trace = [Run [''bash''] (bashStdin ''which tool''),
                        Run [''bash''] (bashStdin ''make install-tool''),
                        Run [''bash''] (bashStdin ''which tool'')]\<rparr>)"
proof -
  have first: "cmd_Run demoSys [''bash''] (bashStdin (Verification toolEnvironment)) (world demoState)
                 = (Some ''exit status 1'', demoWorld)"
    by (simp add: demo_defs bashStdin_def)
  have allowed: "decisionArgv (policyTable (Privilege toolEnvironment) (machinePrivilege demoSys)
                                 (deescalationIdentity demoSys)) = Some [''bash'']"
    by (simp add: demo_defs machinePrivilege_def deescalationIdentity_def)
  have script: "cmd_Run demoSys [''bash''] (bashStdin (Script toolEnvironment)) demoWorld
                  = (None, demoWorld\<lparr>installed := True\<rparr>)"
    by (simp add: demo_defs bashStdin_def)
  have second: "cmd_Run demoSys [''bash''] (bashStdin (Verification toolEnvironment))
                  (demoWorld\<lparr>installed := True\<rparr>) = (None, demoWorld\<lparr>installed := True\<rparr>)"
    by (simp add: demo_defs bashStdin_def)
  show ?thesis
    using install_after_script [OF first allowed script second]
    by (simp add: demoState_def toolEnvironment_def)
qed

text \<open>
  Claim C4. When the verification command of an environment succeeds, \<open>install\<close>
  returns \<open>nil\<close> at once: the executor is called once, with the verification command,
  and never with the install script. This holds of the lines of \<open>install\<close> that follow
  the resolution, and so of \<open>install\<close> whenever it resolves that environment.
\<close>

theorem install_already_installed:
  assumes "cmd_Run sys [''bash''] (bashStdin (Verification env)) (world st) = (None, w')"
  shows "installEnvironment sys env st =
           (None, st\<lparr>world := w',
                     trace := trace st @ [Run [''bash''] (bashStdin (Verification env))],
                     stderr := stderr st @ [''The package is already installed'']\<rparr>)
         \<and> newCalls st (snd (installEnvironment sys env st))
             = [Run [''bash''] (bashStdin (Verification env))]
         \<and> (Script env \<noteq> Verification env \<longrightarrow>
              (\<forall>argv. Run argv (bashStdin (Script env))
                        \<notin> set (newCalls st (snd (installEnvironment sys env st)))))
         \<and> (\<forall>st0 packageName envId.
               machineEnvId sys (world st0) = Returns envId
               \<and> findPackageEnvironment sys packageName envId st0 = (Returns (Inr env), st)
               \<longrightarrow> install sys packageName st0 =
                     (Returns None,
                      st\<lparr>world := w',
                         trace := trace st @ [Run [''bash''] (bashStdin (Verification env))],
                         stderr := stderr st @ [''The package is already installed'']\<rparr>))"
proof -
  have body: "installEnvironment sys env st =
           (None, st\<lparr>world := w',
                     trace := trace st @ [Run [''bash''] (bashStdin (Verification env))],
                     stderr := stderr st @ [''The package is already installed'']\<rparr>)"
    using assms by (simp add: installEnvironment_def verifyExec_run message_def)
  have calls: "newCalls st (snd (installEnvironment sys env st))
                 = [Run [''bash''] (bashStdin (Verification env))]"
    by (simp add: body newCalls_def)
  have never: "Script env \<noteq> Verification env \<longrightarrow>
                 (\<forall>argv. Run argv (bashStdin (Script env))
                           \<notin> set (newCalls st (snd (installEnvironment sys env st))))"
    unfolding calls by (simp add: bashStdin_def)
  have whole: "install sys packageName st0 =
                 (Returns None,
                  st\<lparr>world := w',
                     trace := trace st @ [Run [''bash''] (bashStdin (Verification env))],
                     stderr := stderr st @ [''The package is already installed'']\<rparr>)"
    if "machineEnvId sys (world st0) = Returns envId
        \<and> findPackageEnvironment sys packageName envId st0 = (Returns (Inr env), st)"
    for st0 packageName envId
    using that install_resolved [of sys st0 envId packageName env st] by (simp add: body)
  show ?thesis
    using body calls never whole by blast
qed

theorem install_already_installed_witness:
  "installEnvironment demoSys toolEnvironment (demoState\<lparr>world := demoWorld\<lparr>installed := True\<rparr>\<rparr>)
     = (None, \<lparr>world = demoWorld\<lparr>installed := True\<rparr>,
               stderr = [''The package is already installed''], stdout = [],
               trace = [Run [''bash''] (bashStdin ''which tool'')]\<rparr>)"
proof -
  have run: "cmd_Run demoSys [''bash''] (bashStdin (Verification toolEnvironment))
               (world (demoState\<lparr>world := demoWorld\<lparr>installed := True\<rparr>\<rparr>))
             = (None, demoWorld\<lparr>installed := True\<rparr>)"
    by (simp add: demo_defs)
  show ?thesis
    using install_already_installed [OF run, THEN conjunct1]
    by (simp add: demoState_def toolEnvironment_def)
qed

section \<open>The example machine, evaluated\<close>

lemma demoSys_sel:
  "Getuid demoSys = 1000" "Getenv demoSys = (\<lambda>_. [])" "GOOS demoSys = ''linux''"
  "GOARCH demoSys = ''amd64''" "user_Current demoSys = Inr ''/home/u''"
  "os_Stat demoSys = demoStat" "ioutil_ReadFile demoSys = demoRead"
  "yaml_Unmarshal demoSys = demoYaml" "cmd_Run demoSys = demoRun"
  "strings_ToLower demoSys = demoToLower" "strings_TrimSpace demoSys = demoTrimSpace"
  "git_PlainClone demoSys = (\<lambda>path url w. (None, w\<lparr>dirs := path # dirs w\<rparr>))"
  "git_PlainOpen demoSys = (\<lambda>path w. None)" "git_Worktree demoSys = (\<lambda>path w. None)"
  "git_Pull demoSys = (\<lambda>path w. (None, w))"
  by (simp_all add: demoSys_def)

lemmas demo_world_defs = demoWorld_def demoState_def demoStat_def demoRead_def demoYaml_def
  demoRun_def toolPackage_def toolEnvironment_def

lemma homeDir_demo: "homeDir demoSys st = (Returns ''/home/u'', st)"
  by (simp add: homeDir_def machinePrivilege_def demoSys_sel)

lemma repos_demo:
  "packageRepositories demoSys demoState
     = (Returns [''https://a.org/x.git'', ''http://b.org/y'', ''https://c.org/z.git''], demoState)"
  by (simp add: packageRepositories_def andThen_def returns_def homeDir_demo Let_def
        HasPrefix_def Trim_spaces_def demoSys_sel demo_world_defs)

lemma paths_demo:
  "repoUrl2repoPath demoSys ''https://a.org/x.git'' st = (Returns ''/home/u/.mopm/a.org/x'', st)"
  "repoUrl2repoPath demoSys ''http://b.org/y'' st = (Returns ''/home/u/.mopm/b.org/y'', st)"
  "repoUrl2repoPath demoSys ''https://c.org/z.git'' st = (Returns ''/home/u/.mopm/c.org/z'', st)"
  by (simp_all add: repoUrl2repoPath_def andThen_def returns_def homeDir_demo
        TrimPrefix_def TrimSuffix_def HasPrefix_def HasSuffix_def)

lemma lint_tool: "lintPackage toolPackage = None"
  by (simp add: lintPackage_def pkgNameRegex_def urlRegex_def HasPrefix_def name_char_def
        toolPackage_def toolEnvironment_def)

lemma lint_later:
  "lintPackage (toolPackage\<lparr>Environments := [toolEnvironment\<lparr>Script := ''make later''\<rparr>]\<rparr>) = None"
  by (simp add: lintPackage_def pkgNameRegex_def urlRegex_def HasPrefix_def name_char_def
        toolPackage_def toolEnvironment_def)

lemma read_demo:
  "readPackageFile demoSys ''/home/u/.mopm/a.org/x/definitions/tool.yaml'' demoWorld
     = Inl (ErrorsNew ''Package name must consist of a-z, 0-9 and -(hyphen) charactors'')"
  "readPackageFile demoSys ''/home/u/.mopm/b.org/y/definitions/tool.yaml'' demoWorld
     = Inr \<lparr>Package = toolPackage, Path = ''/home/u/.mopm/b.org/y/definitions/tool.yaml''\<rparr>"
  "readPackageFile demoSys ''/home/u/.mopm/c.org/z/definitions/tool.yaml'' demoWorld
     = Inr \<lparr>Package = toolPackage\<lparr>Environments := [toolEnvironment\<lparr>Script := ''make later''\<rparr>]\<rparr>,
            Path = ''/home/u/.mopm/c.org/z/definitions/tool.yaml''\<rparr>"
    apply (simp add: readPackageFile_def demoSys_sel demoStat_def demoRead_def demoWorld_def
             demoYaml_def lintPackage_def pkgNameRegex_def name_char_def)
   apply (simp add: readPackageFile_def demoSys_sel demoStat_def demoRead_def demoWorld_def
            demoYaml_def lint_tool)
  apply (simp add: readPackageFile_def demoSys_sel demoStat_def demoRead_def demoWorld_def
           demoYaml_def lint_later)
  done

lemma findAll_demo:
  "findAllPackageFile demoSys ''tool'' demoState
     = (Returns ([\<lparr>Package = toolPackage, Path = ''/home/u/.mopm/b.org/y/definitions/tool.yaml''\<rparr>,
                  \<lparr>Package = toolPackage\<lparr>Environments := [toolEnvironment\<lparr>Script := ''make later''\<rparr>]\<rparr>,
                   Path = ''/home/u/.mopm/c.org/z/definitions/tool.yaml''\<rparr>], None), demoState)"
proof -
  have w: "world demoState = demoWorld" by (simp add: demoState_def)
  show ?thesis
    by (simp add: findAllPackageFile_def andThen_def repos_demo paths_demo packageFilePath_def w
          read_demo)
qed

section \<open>The resolver\<close>

lemma find_append_option:
  "find P (xs @ ys) = (case find P xs of Some x \<Rightarrow> Some x | None \<Rightarrow> find P ys)"
  by (induction xs) simp_all

lemma findInEnvironments_find:
  "findInEnvironments envs envId = find (\<lambda>env. envIdOf env = envId) envs"
  by (induction envs) simp_all

lemma findInPackageFiles_find:
  "findInPackageFiles pkgFiles envId =
     (case find (\<lambda>env. envIdOf env = envId) (allEnvironments pkgFiles) of
        Some env \<Rightarrow> Inr env
      | None \<Rightarrow> Inl (ErrorsNew ''Matched environment does not exist''))"
proof (induction pkgFiles)
  case Nil
  show ?case by (simp add: allEnvironments_def)
next
  case (Cons pkgFile rest)
  then show ?case
    by (simp add: allEnvironments_def findInEnvironments_find find_append_option split: option.splits)
qed

lemma findAllLoop_no_error:
  "findAllLoop sys packageName urls pkgFiles st = (Returns r, st') \<Longrightarrow> snd r = None"
  by (induction sys packageName urls pkgFiles st rule: findAllLoop.induct)
     (auto split: prod.splits outcome.splits sum.splits)

lemma findAllPackageFile_no_error:
  "findAllPackageFile sys packageName st = (Returns r, st') \<Longrightarrow> snd r = None"
  by (auto simp: findAllPackageFile_def andThen_def split: prod.splits outcome.splits
           dest: findAllLoop_no_error)

lemma findPackageEnvironment_found:
  assumes "findAllPackageFile sys packageName st = (Returns (pkgFiles, err), st')"
  shows "findPackageEnvironment sys packageName envId st
           = (Returns (findInPackageFiles pkgFiles envId), st')"
proof -
  have "err = None" using findAllPackageFile_no_error [OF assms] by simp
  with assms show ?thesis
    by (simp add: findPackageEnvironment_def andThen_def returns_def)
qed

text \<open>
  Claim C5. Let \<open>findAllPackageFile\<close> return the package files \<open>pkgFiles\<close>, in the order
  of the sources. \<open>findPackageEnvironment\<close> goes through their environments in that
  order, each package's environments in the order of declaration: it returns an
  environment exactly when that is the first one whose \<open>architecture@platform\<close> is the
  machine's identifier (a later one with the same identifier is never returned), and
  it returns the not-found error exactly when no environment has that identifier.
\<close>

theorem resolve_first_match:
  assumes "findAllPackageFile sys packageName st = (Returns (pkgFiles, err), st')"
  shows "snd (findPackageEnvironment sys packageName envId st) = st'
         \<and> (\<forall>env. fst (findPackageEnvironment sys packageName envId st) = Returns (Inr env)
               \<longleftrightarrow> (\<exists>i < length (allEnvironments pkgFiles).
                      allEnvironments pkgFiles ! i = env \<and> envIdOf env = envId
                      \<and> (\<forall>j < i. envIdOf (allEnvironments pkgFiles ! j) \<noteq> envId)))
         \<and> (fst (findPackageEnvironment sys packageName envId st)
               = Returns (Inl (ErrorsNew ''Matched environment does not exist''))
             \<longleftrightarrow> (\<forall>env \<in> set (allEnvironments pkgFiles). envIdOf env \<noteq> envId))"
proof -
  let ?all = "allEnvironments pkgFiles"
  let ?P = "\<lambda>env. envIdOf env = envId"
  have r: "findPackageEnvironment sys packageName envId st
             = (Returns (case find ?P ?all of Some env \<Rightarrow> Inr env
                         | None \<Rightarrow> Inl (ErrorsNew ''Matched environment does not exist'')), st')"
    using findPackageEnvironment_found [OF assms] by (simp add: findInPackageFiles_find)
  have hit: "find ?P ?all = Some env
               \<longleftrightarrow> (\<exists>i < length ?all. ?all ! i = env \<and> ?P env \<and> (\<forall>j < i. \<not> ?P (?all ! j)))" for env
    by (auto simp: find_Some_iff)
  have miss: "find ?P ?all = None \<longleftrightarrow> (\<forall>env \<in> set ?all. \<not> ?P env)"
    by (auto simp: find_None_iff)
  have fst_hit: "fst (findPackageEnvironment sys packageName envId st) = Returns (Inr env)
                  \<longleftrightarrow> find ?P ?all = Some env" for env
    using r by (simp split: option.splits)
  have fst_miss: "fst (findPackageEnvironment sys packageName envId st)
                    = Returns (Inl (ErrorsNew ''Matched environment does not exist''))
                  \<longleftrightarrow> find ?P ?all = None"
    using r by (simp split: option.splits)
  show ?thesis
    unfolding fst_hit fst_miss hit miss using r by simp
qed

text \<open>On the example machine two sources declare an environment for \<open>amd64@linux/ubuntu\<close>;
  the one of the earlier source is returned.\<close>

theorem resolve_first_match_witness:
  "findPackageEnvironment demoSys ''tool'' ''amd64@linux/ubuntu'' demoState
     = (Returns (Inr toolEnvironment), demoState)
   \<and> fst (findPackageEnvironment demoSys ''tool'' ''amd64@linux/ubuntu'' demoState)
       \<noteq> Returns (Inr (toolEnvironment\<lparr>Script := ''make later''\<rparr>))"
proof -
  let ?r = "findPackageEnvironment demoSys ''tool'' ''amd64@linux/ubuntu'' demoState"
  have all: "allEnvironments
               [\<lparr>Package = toolPackage, Path = ''/home/u/.mopm/b.org/y/definitions/tool.yaml''\<rparr>,
                \<lparr>Package = toolPackage\<lparr>Environments := [toolEnvironment\<lparr>Script := ''make later''\<rparr>]\<rparr>,
                 Path = ''/home/u/.mopm/c.org/z/definitions/tool.yaml''\<rparr>]
             = [toolEnvironment, toolEnvironment\<lparr>Script := ''make later''\<rparr>]"
    by (simp add: allEnvironments_def toolPackage_def)
  note fm = resolve_first_match [OF findAll_demo, of "''amd64@linux/ubuntu''", unfolded all]
  have id: "envIdOf toolEnvironment = ''amd64@linux/ubuntu''"
    by (simp add: envIdOf_def toolEnvironment_def)
  have "\<exists>i < length [toolEnvironment, toolEnvironment\<lparr>Script := ''make later''\<rparr>].
          [toolEnvironment, toolEnvironment\<lparr>Script := ''make later''\<rparr>] ! i = toolEnvironment
          \<and> envIdOf toolEnvironment = ''amd64@linux/ubuntu''
          \<and> (\<forall>j < i. envIdOf ([toolEnvironment, toolEnvironment\<lparr>Script := ''make later''\<rparr>] ! j)
                        \<noteq> ''amd64@linux/ubuntu'')"
    using id by (intro exI [of _ 0]) simp
  with fm have "fst ?r = Returns (Inr toolEnvironment)" and "snd ?r = demoState"
    by blast+
  then show ?thesis
    by (cases ?r) (simp add: toolEnvironment_def)
qed

section \<open>The validator\<close>

lemma lintDependencies_rule:
  "lintDependencies deps =
     (if list_all (\<lambda>d. d \<noteq> [] \<and> list_all name_char d) deps then None
      else Some (ruleError (DependencyCharset i)))"
  by (induction deps) (simp_all add: pkgNameRegex_def)

lemma lintEnvironments_rules:
  "k \<le> length (Environments pkg) \<Longrightarrow>
   lintEnvironments (drop k (Environments pkg)) =
     map_option ruleError
       (find (violated pkg) (concat (map environmentRules [k ..< length (Environments pkg)])))"
proof (induction "length (Environments pkg) - k" arbitrary: k)
  case 0
  then show ?case by simp
next
  case (Suc n)
  then have lt: "k < length (Environments pkg)" by simp
  have step: "drop k (Environments pkg) = Environments pkg ! k # drop (Suc k) (Environments pkg)"
    using lt by (simp add: Cons_nth_drop_Suc)
  have range: "[k ..< length (Environments pkg)] = k # [Suc k ..< length (Environments pkg)]"
    using lt by (simp add: upt_conv_Cons)
  have IH: "lintEnvironments (drop (Suc k) (Environments pkg)) =
              map_option ruleError
                (find (violated pkg)
                   (concat (map environmentRules [Suc k ..< length (Environments pkg)])))"
    using Suc.hyps(1) [of "Suc k"] Suc.hyps(2) lt by simp
  show ?case
    unfolding step range
    by (simp add: environmentRules_def IH lintDependencies_rule [of _ k])
qed

lemma lintPackage_firstViolation:
  "lintPackage pkg = map_option ruleError (firstViolation pkg)"
  using lintEnvironments_rules [of 0 pkg]
  by (simp add: lintPackage_def firstViolation_def ruleOrder_def pkgNameRegex_def urlRegex_def)

text \<open>
  Claim C6. \<open>lintPackage\<close> reports the error of the first rule that the record
  violates, in the order: name, url, description, environments not empty, then for
  each environment in the order of declaration architecture, platform, dependency
  names, verification, script; it returns \<open>nil\<close> when no rule is violated. A name with
  a character outside \<open>[0-9a-z-]\<close> is reported by the name rule whatever the other
  fields are.
\<close>

theorem lint_reports_first_violation:
  "lintPackage pkg = map_option ruleError (firstViolation pkg)
   \<and> ((\<exists>c \<in> set (Name pkg). \<not> name_char c) \<longrightarrow> lintPackage pkg = Some (ruleError NameCharset))"
proof -
  have "lintPackage pkg = Some (ruleError NameCharset)" if "\<exists>c \<in> set (Name pkg). \<not> name_char c"
    using that by (auto simp: lintPackage_def pkgNameRegex_def list_all_iff)
  then show ?thesis
    using lintPackage_firstViolation by blast
qed

theorem lint_reports_first_violation_witness:
  "lintPackage \<lparr>Name = ''Tool'', Url = ''ftp://nowhere'', Description = [], Environments = []\<rparr>
     = Some (ErrorsNew ''Package name must consist of a-z, 0-9 and -(hyphen) charactors'')"
proof -
  have bad: "\<exists>c \<in> set (Name \<lparr>Name = ''Tool'', Url = ''ftp://nowhere'', Description = [],
                                Environments = []\<rparr>). \<not> name_char c"
    by (simp add: name_char_def)
  from lint_reports_first_violation
         [of "\<lparr>Name = ''Tool'', Url = ''ftp://nowhere'', Description = [], Environments = []\<rparr>"]
  have "lintPackage \<lparr>Name = ''Tool'', Url = ''ftp://nowhere'', Description = [], Environments = []\<rparr>
          = Some (ruleError NameCharset)"
    using bad by blast
  then show ?thesis by simp
qed

section \<open>Validation at the boundary\<close>

lemma homeDir_pure:
  assumes "homeDir sys st = (Returns home, st0)"
  shows "st0 = st" and "homeDir sys st2 = (Returns home, st2)"
proof -
  have "st0 = st \<and> homeDir sys st2 = (Returns home, st2)"
  proof (cases "machinePrivilege sys")
    case False
    with assms show ?thesis
      by (cases "user_Current sys") (simp_all add: homeDir_def)
  next
    case True
    with assms show ?thesis
      by (cases "user_Lookup sys (Getenv sys ''SUDO_USER'')")
         (simp_all add: homeDir_def andThen_def Let_def split: if_splits)
  qed
  then show "st0 = st" and "homeDir sys st2 = (Returns home, st2)" by simp_all
qed

lemma repoUrl2repoPath_home:
  assumes "homeDir sys st = (Returns home, st0)"
  shows "repoUrl2repoPath sys url st2 =
           (Returns (home @ ''/.mopm/''
                     @ TrimSuffix (TrimPrefix (TrimPrefix url ''http://'') ''https://'') ''.git''), st2)"
  using homeDir_pure(2) [OF assms, of st2]
  by (simp add: repoUrl2repoPath_def andThen_def returns_def)

lemma findAllLoop_readable:
  assumes "homeDir sys st = (Returns home, st0)"
  shows "findAllLoop sys packageName urls pkgFiles st2 =
           (Returns (pkgFiles @ readableFiles sys home packageName urls (world st2), None), st2)"
proof (induction urls arbitrary: pkgFiles)
  case Nil
  show ?case by (simp add: readableFiles_def)
next
  case (Cons url urls)
  show ?case
    by (simp add: repoUrl2repoPath_home [OF assms] Cons.IH readableFiles_def split: sum.splits)
qed

lemma lintEnvironments_valid:
  "lintEnvironments envs = None \<Longrightarrow> env \<in> set envs \<Longrightarrow> validEnvironment env"
  by (induction envs) (auto simp: validEnvironment_def split: if_splits option.splits)

lemma lintPackage_valid:
  "lintPackage pkg = None \<Longrightarrow> env \<in> set (Environments pkg) \<Longrightarrow> validEnvironment env"
  by (auto simp: lintPackage_def split: if_splits dest: lintEnvironments_valid)

lemma readPackageFile_Inr:
  "readPackageFile sys path w = Inr pkgFile \<longleftrightarrow>
     (os_Stat sys path w = None
      \<and> (\<exists>buf pkg. ioutil_ReadFile sys path w = Inr buf \<and> yaml_Unmarshal sys buf = Inr pkg
            \<and> lintPackage pkg = None \<and> pkgFile = \<lparr>Package = pkg, Path = path\<rparr>))"
  by (auto simp: readPackageFile_def split: option.splits sum.splits)

lemma readPackageFile_linted:
  "readPackageFile sys path w = Inr pkgFile \<Longrightarrow> lintPackage (Package pkgFile) = None"
  by (auto simp: readPackageFile_Inr)

lemma readableFiles_linted:
  assumes "pkgFile \<in> set (readableFiles sys home packageName urls w)"
  shows "lintPackage (Package pkgFile) = None"
proof -
  from assms obtain path where "readPackageFile sys path w = Inr pkgFile"
    by (auto simp: readableFiles_def split: sum.splits)
  then show ?thesis by (rule readPackageFile_linted)
qed

lemma findInPackageFiles_member:
  "findInPackageFiles pkgFiles envId = Inr env \<Longrightarrow>
   \<exists>pkgFile \<in> set pkgFiles. env \<in> set (Environments (Package pkgFile))"
proof (induction pkgFiles)
  case Nil
  then show ?case by simp
next
  case (Cons pkgFile rest)
  have inner: "findInEnvironments envs envId = Some e \<Longrightarrow> e \<in> set envs" for envs e
    by (induction envs) (auto split: if_splits)
  from Cons show ?case
    by (auto split: option.splits dest: inner)
qed

text \<open>
  Claim C7. When the home directory and the list of repositories are read,
  \<open>findAllPackageFile\<close> returns, in the order of the repositories, exactly the package
  files that \<open>readPackageFile\<close> accepts: a repository whose file is missing, unreadable,
  unparsable or rejected by \<open>lintPackage\<close> contributes nothing and the others are kept.
  So every package that is returned has passed \<open>lintPackage\<close>, and every environment of
  it, hence every environment that \<open>findPackageEnvironment\<close> returns, has an allowed
  architecture and platform and a verification command and a script that are not
  empty.
\<close>

theorem validation_boundary:
  assumes home: "homeDir sys st = (Returns home, st0)"
      and repos: "packageRepositories sys st = (Returns repos, st1)"
  shows "findAllPackageFile sys packageName st
           = (Returns (readableFiles sys home packageName repos (world st1), None), st1)
         \<and> (\<forall>path w pkgFile.
               readPackageFile sys path w = Inr pkgFile \<longleftrightarrow>
                 (os_Stat sys path w = None
                  \<and> (\<exists>buf pkg. ioutil_ReadFile sys path w = Inr buf \<and> yaml_Unmarshal sys buf = Inr pkg
                        \<and> lintPackage pkg = None \<and> pkgFile = \<lparr>Package = pkg, Path = path\<rparr>)))
         \<and> (\<forall>pkgFile \<in> set (readableFiles sys home packageName repos (world st1)).
               lintPackage (Package pkgFile) = None
               \<and> (\<forall>env \<in> set (Environments (Package pkgFile)). validEnvironment env))
         \<and> (\<forall>envId env.
               fst (findPackageEnvironment sys packageName envId st) = Returns (Inr env)
               \<longrightarrow> validEnvironment env)"
proof -
  let ?files = "readableFiles sys home packageName repos (world st1)"
  have all: "findAllPackageFile sys packageName st = (Returns (?files, None), st1)"
    using repos findAllLoop_readable [OF home, of packageName repos "[]" st1]
    by (simp add: findAllPackageFile_def andThen_def)
  have valid: "lintPackage (Package pkgFile) = None
               \<and> (\<forall>env \<in> set (Environments (Package pkgFile)). validEnvironment env)"
    if "pkgFile \<in> set ?files" for pkgFile
    using readableFiles_linted [OF that] lintPackage_valid by blast
  have found: "validEnvironment env"
    if "fst (findPackageEnvironment sys packageName envId st) = Returns (Inr env)" for envId env
  proof -
    from that have "findInPackageFiles ?files envId = Inr env"
      by (simp add: findPackageEnvironment_found [OF all])
    then obtain pkgFile where "pkgFile \<in> set ?files" "env \<in> set (Environments (Package pkgFile))"
      using findInPackageFiles_member by blast
    then show ?thesis using valid by blast
  qed
  show ?thesis
  proof (intro conjI)
    show "findAllPackageFile sys packageName st = (Returns (?files, None), st1)"
      by (rule all)
    show "\<forall>path w pkgFile.
            readPackageFile sys path w = Inr pkgFile \<longleftrightarrow>
              (os_Stat sys path w = None
               \<and> (\<exists>buf pkg. ioutil_ReadFile sys path w = Inr buf \<and> yaml_Unmarshal sys buf = Inr pkg
                     \<and> lintPackage pkg = None \<and> pkgFile = \<lparr>Package = pkg, Path = path\<rparr>))"
      by (intro allI) (rule readPackageFile_Inr)
    show "\<forall>pkgFile \<in> set ?files.
            lintPackage (Package pkgFile) = None
            \<and> (\<forall>env \<in> set (Environments (Package pkgFile)). validEnvironment env)"
      using valid by blast
    show "\<forall>envId env.
            fst (findPackageEnvironment sys packageName envId st) = Returns (Inr env)
            \<longrightarrow> validEnvironment env"
      using found by blast
  qed
qed

text \<open>On the example machine the first repository's definition is rejected and the
  two others are returned.\<close>

theorem validation_boundary_witness:
  "findAllPackageFile demoSys ''tool'' demoState
     = (Returns ([\<lparr>Package = toolPackage, Path = ''/home/u/.mopm/b.org/y/definitions/tool.yaml''\<rparr>,
                  \<lparr>Package = toolPackage\<lparr>Environments := [toolEnvironment\<lparr>Script := ''make later''\<rparr>]\<rparr>,
                   Path = ''/home/u/.mopm/c.org/z/definitions/tool.yaml''\<rparr>], None), demoState)
   \<and> readPackageFile demoSys ''/home/u/.mopm/a.org/x/definitions/tool.yaml'' demoWorld
       = Inl (ErrorsNew ''Package name must consist of a-z, 0-9 and -(hyphen) charactors'')"
proof -
  have files: "readableFiles demoSys ''/home/u'' ''tool''
                 [''https://a.org/x.git'', ''http://b.org/y'', ''https://c.org/z.git''] (world demoState)
               = [\<lparr>Package = toolPackage, Path = ''/home/u/.mopm/b.org/y/definitions/tool.yaml''\<rparr>,
                  \<lparr>Package = toolPackage\<lparr>Environments := [toolEnvironment\<lparr>Script := ''make later''\<rparr>]\<rparr>,
                   Path = ''/home/u/.mopm/c.org/z/definitions/tool.yaml''\<rparr>]"
  proof -
    have w: "world demoState = demoWorld" by (simp add: demoState_def)
    show ?thesis
      by (simp add: readableFiles_def packageFilePath_def TrimPrefix_def TrimSuffix_def
            HasPrefix_def HasSuffix_def w read_demo)
  qed
  from validation_boundary [OF homeDir_demo repos_demo, of "''tool''"]
  have "findAllPackageFile demoSys ''tool'' demoState
          = (Returns (readableFiles demoSys ''/home/u'' ''tool''
                        [''https://a.org/x.git'', ''http://b.org/y'', ''https://c.org/z.git'']
                        (world demoState), None), demoState)"
    by (rule conjunct1)
  then show ?thesis
    by (simp add: files read_demo)
qed

section \<open>The platform of the machine\<close>

lemma HasPrefix_namePrefix:
  "HasPrefix line namePrefix \<longleftrightarrow> take 6 line = ''NAME='' @ [dquote]"
  by (simp add: HasPrefix_def namePrefix_def eval_nat_numeral)

lemma HasSuffix_single:
  "HasSuffix line [c] \<longleftrightarrow> line \<noteq> [] \<and> last line = c"
  by (cases line rule: rev_cases) (auto simp: HasSuffix_def)

lemma osReleaseLines_find:
  "osReleaseLines sys lines =
     (case find (\<lambda>line. take 6 line = ''NAME='' @ [dquote] \<and> line \<noteq> [] \<and> last line = dquote) lines of
        None \<Rightarrow> Returns ''linux''
      | Some line \<Rightarrow>
          if length line < 7 then Panics ''runtime error: slice bounds out of range [6:5]''
          else Returns (''linux/''
                        @ strings_TrimSpace sys (strings_ToLower sys (drop 6 (butlast line)))))"
proof (induction lines)
  case Nil
  show ?case by simp
next
  case (Cons line rest)
  have "length line - 1 < 6 \<longleftrightarrow> length line < 7" by arith
  with Cons show ?case
    by (simp add: HasPrefix_namePrefix HasSuffix_single butlast_conv_take Let_def)
qed

text \<open>The lines of a text: a piece without line ends, followed by a line end, is the
  first line, and the rest is split in the same way.\<close>

lemma SplitLines_no_end:
  "CR \<notin> set l \<Longrightarrow> LF \<notin> set l \<Longrightarrow> SplitLines l = [l]"
  by (induction l rule: SplitLines.induct) auto

lemma SplitLines_pieces:
  assumes "CR \<notin> set l" and "LF \<notin> set l"
  shows "SplitLines (l @ [CR, LF] @ rest) = l # SplitLines rest"
    and "SplitLines (l @ [LF, CR] @ rest) = l # SplitLines rest"
    and "(rest = [] \<or> hd rest \<noteq> CR) \<Longrightarrow> SplitLines (l @ [LF] @ rest) = l # SplitLines rest"
    and "(rest = [] \<or> hd rest \<noteq> LF) \<Longrightarrow> SplitLines (l @ [CR] @ rest) = l # SplitLines rest"
  using assms
  by (induction l rule: SplitLines.induct; cases rest; auto)+

text \<open>
  Claim C8, as the specification states it, fails: on Linux, when \<open>/etc/os-release\<close>
  holds the field with an empty value, \<open>NAME=""\<close>, the platform is \<open>linux/\<close> and not
  \<open>linux\<close>.
\<close>

theorem empty_name_counterexample:
  "GOOS demoSys = ''linux''
   \<and> ioutil_ReadFile demoSys ''/etc/os-release'' namelessWorld = Inr (''NAME='' @ [dquote, dquote])
   \<and> machinePlatform demoSys namelessWorld = Returns ''linux/''
   \<and> machinePlatform demoSys namelessWorld \<noteq> Returns ''linux''"
  by (simp add: machinePlatform_def demoSys_sel demoRead_def namelessWorld_def demoWorld_def
        HasPrefix_def HasSuffix_def namePrefix_def demoTrimSpace_def demoToLower_def)

text \<open>
  Claim C8, amended. On another system than Linux the platform is \<open>GOOS\<close>. On Linux,
  \<open>/etc/os-release\<close> is read and a failure to read it is a panic. Otherwise the first
  line that starts with \<open>NAME="\<close> and ends with \<open>"\<close> decides. When that line has seven
  bytes or more (an opening and a closing quote), the platform is \<open>linux/\<close> followed by
  the text between the quotes, put through \<open>strings.ToLower\<close> and then through
  \<open>strings.TrimSpace\<close>, also when that text is empty. When no line starts with \<open>NAME="\<close>
  and ends with \<open>"\<close> (the field is missing or not quoted), the platform is \<open>linux\<close>.
  Nothing is said of the case where that first line is the six bytes \<open>NAME="\<close> alone.
\<close>

theorem machine_platform:
  "(GOOS sys \<noteq> ''linux'' \<longrightarrow> machinePlatform sys w = Returns (GOOS sys))
   \<and> (GOOS sys = ''linux'' \<longrightarrow>
        (case ioutil_ReadFile sys ''/etc/os-release'' w of
           Inl err \<Rightarrow>
             machinePlatform sys w
               = Panics ''failed to read /etc/os-release inspite that your machine is linux''
         | Inr buf \<Rightarrow>
             (case find (\<lambda>line. take 6 line = ''NAME='' @ [dquote] \<and> line \<noteq> [] \<and> last line = dquote)
                        (SplitLines buf) of
                None \<Rightarrow> machinePlatform sys w = Returns ''linux''
              | Some line \<Rightarrow>
                  7 \<le> length line \<longrightarrow>
                  machinePlatform sys w
                    = Returns (''linux/''
                               @ strings_TrimSpace sys (strings_ToLower sys (drop 6 (butlast line)))))))"
  by (simp add: machinePlatform_def osReleaseLines_find split: sum.splits option.splits)

theorem machine_platform_witness:
  "machinePlatform demoSys demoWorld = Returns ''linux/ubuntu''"
proof -
  have os: "GOOS demoSys = ''linux''" by (simp add: demoSys_sel)
  have rd: "ioutil_ReadFile demoSys ''/etc/os-release'' demoWorld
              = Inr (''ID=ubuntu'' @ [LF] @ ''NAME='' @ [dquote] @ ''Ubuntu'' @ [dquote])"
    by (simp add: demoSys_sel demoRead_def demoWorld_def)
  have low: "strings_TrimSpace demoSys (strings_ToLower demoSys ''Ubuntu'') = ''ubuntu''"
    by (simp add: demoSys_sel demoTrimSpace_def demoToLower_def demoLowerChar_def demoIsSpace_def)
  from machine_platform [of demoSys demoWorld]
  show ?thesis
    by (simp add: os rd low)
qed

text \<open>The case that the amended claim leaves out: a line \<open>NAME="\<close> alone is taken for the
  field, and the slice of the text between its quotes is out of bounds.\<close>

lemma bare_name_prefix_panics:
  "machinePlatform demoSys (demoWorld\<lparr>files := [(''/etc/os-release'', ''NAME='' @ [dquote])]\<rparr>)
     = Panics ''runtime error: slice bounds out of range [6:5]''"
  by (simp add: machinePlatform_def demoSys_sel demoRead_def HasPrefix_def HasSuffix_def
        namePrefix_def)

section \<open>Updating the repositories\<close>

lemma repos_demo_files:
  "files (world st) = files demoWorld \<Longrightarrow>
   packageRepositories demoSys st
     = (Returns [''https://a.org/x.git'', ''http://b.org/y'', ''https://c.org/z.git''], st)"
  by (simp add: packageRepositories_def andThen_def returns_def homeDir_demo Let_def
        HasPrefix_def Trim_spaces_def demoSys_sel demoStat_def demoRead_def demoWorld_def)

text \<open>
  Claim C9 does not hold of the program: \<open>update\<close> derives the directory of every round
  from the first URL of the list. On the example machine, with three repositories
  and no clone yet, the first repository is cloned into its own directory and that
  directory is then pulled twice; the second and the third repository are never
  cloned into theirs.
\<close>

theorem update_pairs_every_url_with_first_path:
  "fst (packageRepositories demoSys demoState)
     = Returns [''https://a.org/x.git'', ''http://b.org/y'', ''https://c.org/z.git'']
   \<and> fst (repoUrl2repoPath demoSys ''http://b.org/y'' demoState) = Returns ''/home/u/.mopm/b.org/y''
   \<and> fst (repoUrl2repoPath demoSys ''https://c.org/z.git'' demoState) = Returns ''/home/u/.mopm/c.org/z''
   \<and> fst (update demoSys demoState) = Returns None
   \<and> trace (snd (update demoSys demoState))
       = [Clone ''/home/u/.mopm/a.org/x'' ''https://a.org/x.git'',
          Pull ''/home/u/.mopm/a.org/x'',
          Pull ''/home/u/.mopm/a.org/x'']"
  by (simp add: update_def andThen_def repos_demo_files paths_demo gitClone_def gitPull_def
        demoSys_sel demoStat_def message_def demoState_def demoWorld_def)

section \<open>Root without \<open>sudo\<close>\<close>

lemma homeDir_root_without_sudo:
  assumes "Getuid sys = 0" and "Getenv sys ''SUDO_USER'' = []"
  shows "homeDir sys st
           = (Exits 1, message ''Please excute with sudo if you excute mopm by root'' st)"
  using assms by (simp add: homeDir_def machinePrivilege_def andThen_def)

lemma packageRepositories_root_without_sudo:
  assumes "Getuid sys = 0" and "Getenv sys ''SUDO_USER'' = []"
  shows "packageRepositories sys st
           = (Exits 1, message ''Please excute with sudo if you excute mopm by root'' st)"
  by (simp add: packageRepositories_def andThen_def homeDir_root_without_sudo [OF assms])

text \<open>
  Claim C10. When the process runs as root (uid 0) and \<open>SUDO_USER\<close> is empty, \<open>homeDir\<close>
  prints its message and exits with code 1, and so do \<open>packageRepositories\<close>, \<open>search\<close>
  and \<open>update\<close>, and \<open>verify\<close> and \<open>install\<close> once the machine's identifier is
  derived (they derive it before they read the list of repositories). Nothing but the
  message is done: the world, the calls made and the standard output are unchanged.
\<close>

theorem root_without_sudo_exits:
  assumes "Getuid sys = 0" and "Getenv sys ''SUDO_USER'' = []"
  shows "homeDir sys st
           = (Exits 1, message ''Please excute with sudo if you excute mopm by root'' st)
         \<and> packageRepositories sys st
             = (Exits 1, message ''Please excute with sudo if you excute mopm by root'' st)
         \<and> search sys packageName st
             = (Exits 1, message ''Please excute with sudo if you excute mopm by root'' st)
         \<and> update sys st
             = (Exits 1, message ''Please excute with sudo if you excute mopm by root'' st)
         \<and> (\<forall>envId. machineEnvId sys (world st) = Returns envId \<longrightarrow>
               verify sys packageName st
                 = (Exits 1, message ''Please excute with sudo if you excute mopm by root'' st)
               \<and> install sys packageName st
                   = (Exits 1, message ''Please excute with sudo if you excute mopm by root'' st))
         \<and> world (message ''Please excute with sudo if you excute mopm by root'' st) = world st
         \<and> trace (message ''Please excute with sudo if you excute mopm by root'' st) = trace st
         \<and> stdout (message ''Please excute with sudo if you excute mopm by root'' st) = stdout st
         \<and> stderr (message ''Please excute with sudo if you excute mopm by root'' st)
             = stderr st @ [''Please excute with sudo if you excute mopm by root'']"
  by (simp add: homeDir_root_without_sudo [OF assms] packageRepositories_root_without_sudo [OF assms]
        search_def update_def verify_def install_def findPackageEnvironment_def
        findAllPackageFile_def andThen_def message_def)

theorem root_without_sudo_exits_witness:
  "install rootSys ''tool'' demoState
     = (Exits 1, demoState\<lparr>stderr := [''Please excute with sudo if you excute mopm by root'']\<rparr>)
   \<and> update rootSys demoState
     = (Exits 1, demoState\<lparr>stderr := [''Please excute with sudo if you excute mopm by root'']\<rparr>)"
proof -
  have uid: "Getuid rootSys = 0" by (simp add: rootSys_def)
  have env: "Getenv rootSys ''SUDO_USER'' = []" by (simp add: rootSys_def demoSys_def)
  have id: "machineEnvId rootSys (world demoState) = Returns ''amd64@linux/ubuntu''"
    by (simp add: machineEnvId_def machinePlatform_def rootSys_def demoSys_def demoState_def
          demoRead_def demoWorld_def HasPrefix_def HasSuffix_def namePrefix_def demoTrimSpace_def
          demoToLower_def demoLowerChar_def demoIsSpace_def)
  from root_without_sudo_exits [OF uid env, of demoState "''tool''"] id
  show ?thesis
    by (simp add: message_def demoState_def)
qed

end
